theory Spec2Isabelle
  imports Main "HOL-Library.Sublist"
begin

section \<open>JavaScript string primitives used by the application\<close>

text \<open>
  Strings are modelled as \<^typ>\<open>string\<close> (lists of 8-bit characters). The code points
  U+2028, U+2029, U+FEFF and the Unicode space separators above U+00FF, which JavaScript
  also treats as line terminators or white space, are outside this character type.
\<close>

definition isLineTerminator :: "char \<Rightarrow> bool" where
  "isLineTerminator c = (c = CHR 0x0A \<or> c = CHR 0x0D)"

definition isTrimmable :: "char \<Rightarrow> bool" where
  \<comment> \<open>the characters \<open>String.prototype.trim\<close> strips: white space and line terminators\<close>
  "isTrimmable c =
     (c = CHR 0x09 \<or> c = CHR 0x0A \<or> c = CHR 0x0B \<or> c = CHR 0x0C \<or> c = CHR 0x0D
      \<or> c = CHR 0x20 \<or> c = CHR 0xA0)"

definition trim :: "string \<Rightarrow> string" where
  "trim s = rev (dropWhile isTrimmable (rev (dropWhile isTrimmable s)))"

definition startsWith :: "string \<Rightarrow> string \<Rightarrow> bool" where
  "startsWith s p = prefix p s"

definition endsWith :: "string \<Rightarrow> string \<Rightarrow> bool" where
  "endsWith s p = suffix p s"

definition slice :: "string \<Rightarrow> int \<Rightarrow> int \<Rightarrow> string" where
  \<comment> \<open>\<open>s.slice(start, end)\<close>: a negative index counts from the end, both are clamped\<close>
  "slice s start end =
     (let len = int (length s);
          from = (if start < 0 then max (len + start) 0 else min start len);
          to = (if end < 0 then max (len + end) 0 else min end len)
      in take (nat (to - from)) (drop (nat from) s))"

definition substring :: "string \<Rightarrow> nat \<Rightarrow> string" where
  \<comment> \<open>\<open>s.substring(start)\<close> with a non-negative start\<close>
  "substring s start = drop (min start (length s)) s"

fun splitOnChar :: "char \<Rightarrow> string \<Rightarrow> string \<Rightarrow> string list" where
  \<comment> \<open>\<open>s.split(sep)\<close> for a one-character separator; the first string is the piece read so far\<close>
  "splitOnChar sep piece [] = [piece]"
| "splitOnChar sep piece (c # cs) =
     (if c = sep then piece # splitOnChar sep [] cs else splitOnChar sep (piece @ [c]) cs)"

section \<open>The regular expression of \<open>renderFormattedText\<close>\<close>

text \<open>
  The source splits with
  \<^verbatim>\<open>/(\*.*?\*|\*\*.*?\*\*|`.*?`|```[\s\S]*?```)/g\<close>.
  Each alternative is an opening literal, a lazy repetition of a character class and a
  closing literal. \<open>lazyUntil ok close s\<close> runs the lazy repetition followed by the
  closing literal on \<open>s\<close>: it tries the closing literal first and consumes one more
  character of the class only when that fails. It returns the text matched and the rest.
\<close>

fun lazyUntil :: "(char \<Rightarrow> bool) \<Rightarrow> string \<Rightarrow> string \<Rightarrow> (string \<times> string) option" where
  "lazyUntil ok close [] = (if prefix close [] then Some (close, []) else None)"
| "lazyUntil ok close (c # cs) =
     (if prefix close (c # cs) then Some (close, drop (length close) (c # cs))
      else if ok c then
        (case lazyUntil ok close cs of
           None \<Rightarrow> None
         | Some (m, r) \<Rightarrow> Some (c # m, r))
      else None)"

definition delimited :: "string \<Rightarrow> (char \<Rightarrow> bool) \<Rightarrow> string \<Rightarrow> string \<Rightarrow> (string \<times> string) option" where
  "delimited opn ok close s =
     (if prefix opn s then
        (case lazyUntil ok close (drop (length opn) s) of
           None \<Rightarrow> None
         | Some (m, r) \<Rightarrow> Some (opn @ m, r))
      else None)"

definition dot :: "char \<Rightarrow> bool" where
  \<comment> \<open>\<open>.\<close> without the \<open>s\<close> flag: any character except a line terminator\<close>
  "dot c = (\<not> isLineTerminator c)"

definition anyChar :: "char \<Rightarrow> bool" where
  \<comment> \<open>\<open>[\s\S]\<close>\<close>
  "anyChar c = True"

definition matchAt :: "string \<Rightarrow> (string \<times> string) option" where
  \<comment> \<open>the four alternatives, tried in the order in which the source writes them\<close>
  "matchAt s =
     (case delimited ''*'' dot ''*'' s of
        Some r \<Rightarrow> Some r
      | None \<Rightarrow>
     (case delimited ''**'' dot ''**'' s of
        Some r \<Rightarrow> Some r
      | None \<Rightarrow>
     (case delimited ''`'' dot ''`'' s of
        Some r \<Rightarrow> Some r
      | None \<Rightarrow> delimited ''```'' anyChar ''```'' s)))"

text \<open>
  \<open>text.split(re)\<close> with one capturing group around the whole expression: the scan tries a
  match at every position from left to right; a match closes the piece read so far and is
  itself put into the result (the captured group), and the scan goes on after it.
\<close>

function splitRegex :: "string \<Rightarrow> string \<Rightarrow> string list" where
  "splitRegex piece [] = [piece]"
| "splitRegex piece (c # cs) =
     (case matchAt (c # cs) of
        Some (m, r) \<Rightarrow> piece # m # splitRegex [] r
      | None \<Rightarrow> splitRegex (piece @ [c]) cs)"
  by pat_completeness auto
section \<open>The renderer\<close>

datatype fragment =
    Strong string
  | Em string
  | Pre string
  | Code string
  | Li string
  | Lines "(string \<times> bool) list"

text \<open>
  \<open>Lines\<close> is the array of line fragments of the last branch: each line with the flag
  that says whether a \<open>br\<close> element follows it. The React keys are left out.
\<close>

definition renderLines :: "string \<Rightarrow> fragment" where
  "renderLines section =
     (let ls = splitOnChar (CHR 0x0A) [] section
      in Lines (map (\<lambda>(lineIndex, line). (line, int lineIndex < int (length ls) - 1))
                    (enumerate 0 ls)))"

definition renderSection :: "string \<Rightarrow> fragment" where
  "renderSection section =
     (if startsWith section ''**'' \<and> endsWith section ''**'' then Strong (slice section 2 (- 2))
      else if startsWith section ''*'' \<and> endsWith section ''*'' then Em (slice section 1 (- 1))
      else if startsWith section ''```'' \<and> endsWith section ''```'' then Pre (trim (slice section 3 (- 3)))
      else if startsWith section ''`'' \<and> endsWith section ''`'' then Code (slice section 1 (- 1))
      else if startsWith section ''* '' then Li (substring section 2)
      else if startsWith section ''- '' then Li (substring section 2)
      else renderLines section)"

definition renderFormattedText :: "string \<Rightarrow> fragment list" where
  "renderFormattedText text = map renderSection (splitRegex [] text)"

section \<open>The prompt dispatcher (\<open>services/geminiService.ts\<close>)\<close>

text \<open>
  \<open>ProcessMode\<close> is the enumeration of \<open>types.ts\<close>; \<open>getPrompt\<close> names its three
  members. \<open>Unlisted\<close> stands for any other value that reaches the \<open>default\<close> branch of
  the \<open>switch\<close> at run time.
\<close>

datatype ProcessMode = SUMMARIZE | KEY_POINTS | SIMPLIFY | Unlisted string

text \<open>
  A thrown value is either an \<open>Error\<close> object with its message, or any other value
  (\<open>error instanceof Error\<close> is false for it).
\<close>

datatype thrown = Error string | NonError string

text \<open>The response of the generation boundary: its \<open>text\<close> is a string or absent.\<close>

record response =
  text_payload :: "string option"

type_synonym generateContent = "string \<Rightarrow> string \<Rightarrow> thrown + response"

definition getPrompt :: "ProcessMode \<Rightarrow> string \<Rightarrow> thrown + string" where
  "getPrompt mode text =
     (case mode of
        SUMMARIZE \<Rightarrow> Inr (''Generate a concise summary of the following text. The summary should capture the main ideas and be significantly shorter than the original text:\<newline>\<newline>---\<newline>'' @ text @ ''\<newline>---'')
      | KEY_POINTS \<Rightarrow> Inr (''Extract the key points from the following text and present them as a clear, scannable bulleted list. Each bullet point should represent a distinct, important idea:\<newline>\<newline>---\<newline>'' @ text @ ''\<newline>---'')
      | SIMPLIFY \<Rightarrow> Inr (''Simplify the following text. Rephrase complex sentences, explain difficult words, and break down complicated concepts to make the content easy for a general audience to understand:\<newline>\<newline>---\<newline>'' @ text @ ''\<newline>---'')
      | Unlisted v \<Rightarrow> Inl (Error ''Invalid process mode''))"

definition tryBlock :: "generateContent \<Rightarrow> string \<Rightarrow> ProcessMode \<Rightarrow> thrown + string" where
  \<comment> \<open>the body of the \<open>try\<close>: \<open>Inl\<close> is the value thrown inside it\<close>
  "tryBlock gen text mode =
     (case getPrompt mode text of
        Inl e \<Rightarrow> Inl e
      | Inr prompt \<Rightarrow>
     (case gen ''gemini-2.5-flash'' prompt of
        Inl e \<Rightarrow> Inl e
      | Inr resp \<Rightarrow>
     (case text_payload resp of
        None \<Rightarrow> Inl (Error ''Received an empty response from the AI.'')
      | Some resultText \<Rightarrow>
          if resultText = [] then Inl (Error ''Received an empty response from the AI.'')
          else Inr (trim resultText))))"

definition catchBlock :: "thrown \<Rightarrow> thrown + string" where
  "catchBlock e =
     (case e of
        Error msg \<Rightarrow> Inr (''An error occurred: '' @ msg)
      | NonError v \<Rightarrow> Inr ''An unknown error occurred while contacting the AI.'')"

definition processTextWithGemini :: "generateContent \<Rightarrow> string \<Rightarrow> ProcessMode \<Rightarrow> thrown + string" where
  \<comment> \<open>\<open>Inr\<close>: the promise resolves with the string; \<open>Inl\<close>: it rejects\<close>
  "processTextWithGemini gen text mode =
     (case tryBlock gen text mode of
        Inr r \<Rightarrow> Inr r
      | Inl e \<Rightarrow> catchBlock e)"

section \<open>Application state (\<open>App\<close>)\<close>

record SavedNote =
  note_id :: string
  note_input :: string
  note_output :: string
  note_mode :: ProcessMode
  note_timestamp :: string

record Toast =
  toast_id :: int
  toast_message :: string

record AppState =
  inputText :: string
  outputText :: string
  isLoading :: bool
  error :: string
  currentMode :: "ProcessMode option"
  savedNotes :: "SavedNote list"
  isListening :: bool
  toasts :: "Toast list"



definition expireToast :: "int \<Rightarrow> AppState \<Rightarrow> AppState" where
  \<comment> \<open>the callback of the three-second timer\<close>
  "expireToast i st = st\<lparr>toasts := filter (\<lambda>t. toast_id t \<noteq> i) (toasts st)\<rparr>"

definition handleProcess :: "generateContent \<Rightarrow> string option \<Rightarrow> ProcessMode \<Rightarrow> AppState \<Rightarrow> AppState" where
  \<comment> \<open>\<open>apiKey\<close> is \<open>process.env.API_KEY\<close>; when the awaited call rejects, the statements
      after it do not run\<close>
  "handleProcess gen apiKey mode st =
     (if trim (inputText st) = [] then st\<lparr>error := ''Please enter some text to process.''\<rparr>
      else if apiKey = None \<or> apiKey = Some [] then
        st\<lparr>error := ''API key is not configured. Please set the API_KEY environment variable.'',
           isLoading := False\<rparr>
      else
        (let st1 = st\<lparr>isLoading := True, error := [], outputText := [], currentMode := Some mode\<rparr>
         in case processTextWithGemini gen (inputText st) mode of
              Inl e \<Rightarrow> st1
            | Inr result \<Rightarrow>
                (if startsWith result ''An error occurred:'' then st1\<lparr>error := result\<rparr>
                 else st1\<lparr>outputText := result\<rparr>)\<lparr>isLoading := False\<rparr>))"






section \<open>Termination of the split\<close>

text \<open>Every match is a non-empty prefix of the text it was tried on, so the scan advances.\<close>

lemma lazyUntil_append: "lazyUntil ok close s = Some (m, r) \<Longrightarrow> s = m @ r"
proof (induction s arbitrary: m)
  case Nil
  then show ?case by (auto split: if_splits)
next
  case (Cons c cs)
  show ?case
  proof (cases "prefix close (c # cs)")
    case True
    with Cons.prems have "m = close" "r = drop (length close) (c # cs)" by auto
    with True show ?thesis by (auto simp: prefix_def)
  next
    case False
    with Cons.prems obtain m' where "lazyUntil ok close cs = Some (m', r)" "m = c # m'"
      by (auto split: if_splits option.splits)
    with Cons.IH show ?thesis by simp
  qed
qed

lemma delimited_append:
  assumes "delimited opn ok close s = Some (m, r)"
  shows "s = m @ r \<and> prefix opn m"
proof -
  from assms have p: "prefix opn s" by (auto simp: delimited_def split: if_splits)
  from assms p obtain m' where l: "lazyUntil ok close (drop (length opn) s) = Some (m', r)"
    and m: "m = opn @ m'"
    by (auto simp: delimited_def split: option.splits)
  from lazyUntil_append [OF l] have "drop (length opn) s = m' @ r" .
  with p m show ?thesis by (auto simp: prefix_def)
qed

lemma matchAt_append:
  assumes "matchAt s = Some (m, r)"
  shows "s = m @ r \<and> m \<noteq> []"
proof -
  from assms consider
      "delimited ''*'' dot ''*'' s = Some (m, r)"
    | "delimited ''**'' dot ''**'' s = Some (m, r)"
    | "delimited ''`'' dot ''`'' s = Some (m, r)"
    | "delimited ''```'' anyChar ''```'' s = Some (m, r)"
    by (auto simp: matchAt_def split: option.splits)
  then show ?thesis
    by cases (auto dest!: delimited_append)
qed

termination splitRegex
proof (relation "measure (\<lambda>(piece, s). length s)")
  show "wf (measure (\<lambda>(piece, s). length s))" by simp
next
  fix piece c cs x2 m r
  assume "matchAt (c # cs) = Some x2" "(m, r) = x2"
  then have "matchAt (c # cs) = Some (m, r)" by simp
  from matchAt_append [OF this] have "length r < length (c # cs)"
    by (metis length_append length_greater_0_conv less_add_same_cancel2)
  then show "(([], r), (piece, c # cs)) \<in> measure (\<lambda>(piece, s). length s)" by simp
next
  fix piece c cs
  show "((piece @ [c], cs), (piece, c # cs)) \<in> measure (\<lambda>(piece, s). length s)" by simp
qed

section \<open>Properties of the renderer\<close>

text \<open>
  The second and the fourth alternative of the regular expression never decide a match:
  wherever \<open>**\<close> opens, the first alternative already matches the two stars, and wherever
  three back-ticks open, the third alternative already matches the first two.
\<close>

lemma matchAt_dead_alternatives:
  "matchAt s =
     (case delimited ''*'' dot ''*'' s of
        Some r \<Rightarrow> Some r
      | None \<Rightarrow> delimited ''`'' dot ''`'' s)"
proof -
  have a: "delimited ''**'' dot ''**'' s = None" if "delimited ''*'' dot ''*'' s = None"
  proof (rule ccontr)
    assume "delimited ''**'' dot ''**'' s \<noteq> None"
    then have "prefix ''**'' s" by (auto simp: delimited_def split: if_splits)
    then obtain r where "s = CHR ''*'' # CHR ''*'' # r" by (auto simp: prefix_def)
    then have "delimited ''*'' dot ''*'' s \<noteq> None" by (simp add: delimited_def)
    with that show False by simp
  qed
  have b: "delimited ''```'' anyChar ''```'' s = None" if "delimited ''`'' dot ''`'' s = None"
  proof (rule ccontr)
    assume "delimited ''```'' anyChar ''```'' s \<noteq> None"
    then have "prefix ''```'' s" by (auto simp: delimited_def split: if_splits)
    then obtain r where "s = CHR 0x60 # CHR 0x60 # CHR 0x60 # r" by (auto simp: prefix_def)
    then have "delimited ''`'' dot ''`'' s \<noteq> None" by (simp add: delimited_def)
    with that show False by simp
  qed
  show ?thesis using a b by (auto simp: matchAt_def split: option.splits)
qed

text \<open>
  Claim C1 says that \<open>**bold** and *italic* and `code`\<close> renders as bold "bold", plain
  " and ", italic "italic", plain " and ", inline code "code". Evaluating the renderer on
  that input: the first alternative of the regular expression matches the two stars that
  open the bold span (and again the two that close it), so the result holds two empty bold
  fragments around the plain text "bold", and an empty plain fragment at each end.
\<close>

theorem render_bold_italic_code_example:
  "renderFormattedText ''**bold** and *italic* and `code`'' =
     [Lines [([], False)], Strong [], Lines [(''bold'', False)], Strong [],
      Lines [('' and '', False)], Em ''italic'', Lines [('' and '', False)],
      Code ''code'', Lines [([], False)]]"
  by code_simp

text \<open>
  Claim C2 says that fenced code wins over inline code, and bold over italic, wherever both
  could match. Evaluating the renderer where both could match: on \<open>**a**\<close> the italic
  alternative takes the two opening stars and the letter stays plain text; on a fenced
  \<open>x\<close> the inline-code alternative takes the first two back-ticks, and no code block is
  produced.
\<close>

theorem render_priority_examples:
  "renderFormattedText ''**a**'' =
     [Lines [([], False)], Strong [], Lines [(''a'', False)], Strong [], Lines [([], False)]]
   \<and> renderFormattedText ''```x```'' =
     [Lines [([], False)], Code [], Lines [([], False)], Code ''x'',
      Lines [([], False)], Code [], Lines [([], False)]]"
  by code_simp

text \<open>
  Claim C3 says that \<open>* one\<close>, line break, \<open>* two\<close> renders as a list item "one" and a
  list item "two". The renderer does not produce these two items.
\<close>

theorem render_bullets_not_per_line:
  "\<not> (Li ''one'' \<in> set (renderFormattedText ''* one\<newline>* two'')
      \<and> Li ''two'' \<in> set (renderFormattedText ''* one\<newline>* two''))"
  by code_simp

text \<open>
  Claim C3, as the code has it: the bullet rule looks at the start of a whole unmatched
  segment, not at each line. The input has no match of the regular expression, so it is one
  segment, and the renderer produces a single list item whose text is everything after the
  first marker and its space: "one", the line break, "* two".
\<close>

theorem render_bullets_single_item:
  "renderFormattedText ''* one\<newline>* two'' = [Li ''one\<newline>* two'']"
  by code_simp

section \<open>Properties of the dispatcher\<close>

lemma getPrompt_shape:
  "getPrompt SUMMARIZE text = Inr (''Generate a concise summary of the following text. The summary should capture the main ideas and be significantly shorter than the original text:\<newline>\<newline>---\<newline>'' @ text @ ''\<newline>---'')"
  "getPrompt KEY_POINTS text = Inr (''Extract the key points from the following text and present them as a clear, scannable bulleted list. Each bullet point should represent a distinct, important idea:\<newline>\<newline>---\<newline>'' @ text @ ''\<newline>---'')"
  "getPrompt SIMPLIFY text = Inr (''Simplify the following text. Rephrase complex sentences, explain difficult words, and break down complicated concepts to make the content easy for a general audience to understand:\<newline>\<newline>---\<newline>'' @ text @ ''\<newline>---'')"
  by (simp_all add: getPrompt_def)

lemma directive_SUMMARIZE:
  "sublist ''concise summary'' ''Generate a concise summary of the following text. The summary should capture the main ideas and be significantly shorter than the original text:\<newline>\<newline>---\<newline>''"
  by code_simp

lemma directive_KEY_POINTS:
  "sublist ''key points'' ''Extract the key points from the following text and present them as a clear, scannable bulleted list. Each bullet point should represent a distinct, important idea:\<newline>\<newline>---\<newline>''"
  "sublist ''bulleted list'' ''Extract the key points from the following text and present them as a clear, scannable bulleted list. Each bullet point should represent a distinct, important idea:\<newline>\<newline>---\<newline>''"
  by code_simp+

lemma directive_SIMPLIFY:
  "sublist ''Simplify'' ''Simplify the following text. Rephrase complex sentences, explain difficult words, and break down complicated concepts to make the content easy for a general audience to understand:\<newline>\<newline>---\<newline>''"
  "sublist ''general audience'' ''Simplify the following text. Rephrase complex sentences, explain difficult words, and break down complicated concepts to make the content easy for a general audience to understand:\<newline>\<newline>---\<newline>''"
  by code_simp+

lemma thrown_Error_is_prefixed:
  assumes "getPrompt mode text = Inr prompt"
    and "gen ''gemini-2.5-flash'' prompt = Inl (Error msg)"
  shows "processTextWithGemini gen text mode = Inr (''An error occurred: '' @ msg)"
  using assms by (simp add: processTextWithGemini_def tryBlock_def catchBlock_def)

text \<open>
  Claim C4 says that every failure string of \<open>processTextWithGemini\<close> begins with
  "An error occurred:". When the boundary throws a value that is not an \<open>Error\<close>, the
  failure string is "An unknown error occurred while contacting the AI.", which does not
  begin with that prefix; \<open>handleProcess\<close>, which tells failure from content by the prefix,
  then stores the failure string as the output text and leaves the error empty.
\<close>

theorem unknown_error_lacks_prefix:
  "processTextWithGemini (\<lambda>model contents. Inl (NonError ''quota'')) ''some text'' SUMMARIZE
     = Inr ''An unknown error occurred while contacting the AI.''
   \<and> \<not> startsWith ''An unknown error occurred while contacting the AI.'' ''An error occurred:''
   \<and> outputText (handleProcess (\<lambda>model contents. Inl (NonError ''quota'')) (Some ''key'') SUMMARIZE
        \<lparr>inputText = ''some text'', outputText = [], isLoading = False, error = [],
         currentMode = None, savedNotes = [], isListening = False, toasts = []\<rparr>)
       = ''An unknown error occurred while contacting the AI.''
   \<and> error (handleProcess (\<lambda>model contents. Inl (NonError ''quota'')) (Some ''key'') SUMMARIZE
        \<lparr>inputText = ''some text'', outputText = [], isLoading = False, error = [],
         currentMode = None, savedNotes = [], isListening = False, toasts = []\<rparr>)
       = []"
  by code_simp

text \<open>
  Claim C5 says that a mode outside the three listed ones makes an exception escape to the
  caller of the dispatcher. With such a mode \<open>processTextWithGemini\<close> does not reject.
\<close>

theorem unlisted_mode_does_not_escape:
  "\<not> isl (processTextWithGemini (\<lambda>model contents. Inr \<lparr>text_payload = Some ''ok''\<rparr>)
             ''some text'' (Unlisted ''TRANSLATE''))"
  by code_simp

text \<open>
  Claim C5, as the code has it: for a mode outside the three listed ones \<open>getPrompt\<close>
  throws the error "Invalid process mode"; the call is inside the \<open>try\<close> of
  \<open>processTextWithGemini\<close>, which catches it and resolves with the failure string
  "An error occurred: Invalid process mode", whatever the boundary would have done.
\<close>

theorem unlisted_mode_caught:
  "getPrompt (Unlisted v) text = Inl (Error ''Invalid process mode'')
   \<and> processTextWithGemini gen text (Unlisted v) = Inr ''An error occurred: Invalid process mode''"
  by (simp add: getPrompt_def processTextWithGemini_def tryBlock_def catchBlock_def)

text \<open>
  Claim C6: for a listed mode, when the boundary returns a response whose text is absent or
  empty, \<open>processTextWithGemini\<close> resolves with the failure string that reports the empty
  response, not with the empty payload.
\<close>

theorem empty_payload_is_failure:
  assumes "mode \<in> {SUMMARIZE, KEY_POINTS, SIMPLIFY}"
    and "getPrompt mode text = Inr prompt"
    and "gen ''gemini-2.5-flash'' prompt = Inr resp"
    and "text_payload resp = None \<or> text_payload resp = Some []"
  shows "processTextWithGemini gen text mode =
           Inr ''An error occurred: Received an empty response from the AI.''"
  using assms(2-4)
  by (auto simp: processTextWithGemini_def tryBlock_def catchBlock_def)

theorem empty_payload_is_failure_witness:
  "SIMPLIFY \<in> {SUMMARIZE, KEY_POINTS, SIMPLIFY}
   \<and> processTextWithGemini (\<lambda>model contents. Inr \<lparr>text_payload = Some []\<rparr>) ''hard words'' SIMPLIFY
       = Inr ''An error occurred: Received an empty response from the AI.''
   \<and> processTextWithGemini (\<lambda>model contents. Inr \<lparr>text_payload = None\<rparr>) ''hard words'' SIMPLIFY
       = Inr ''An error occurred: Received an empty response from the AI.''"
proof -
  have m: "SIMPLIFY \<in> {SUMMARIZE, KEY_POINTS, SIMPLIFY}" by simp
  have p: "getPrompt SIMPLIFY ''hard words'' = Inr (projr (getPrompt SIMPLIFY ''hard words''))"
    by (simp add: getPrompt_def)
  have a: "processTextWithGemini (\<lambda>model contents. Inr \<lparr>text_payload = Some []\<rparr>) ''hard words'' SIMPLIFY
       = Inr ''An error occurred: Received an empty response from the AI.''"
    using empty_payload_is_failure [OF m p, of "\<lambda>model contents. Inr \<lparr>text_payload = Some []\<rparr>" "\<lparr>text_payload = Some []\<rparr>"]
    by simp
  have b: "processTextWithGemini (\<lambda>model contents. Inr \<lparr>text_payload = None\<rparr>) ''hard words'' SIMPLIFY
       = Inr ''An error occurred: Received an empty response from the AI.''"
    using empty_payload_is_failure [OF m p, of "\<lambda>model contents. Inr \<lparr>text_payload = None\<rparr>" "\<lparr>text_payload = None\<rparr>"]
    by simp
  from m a b show ?thesis by blast
qed

text \<open>
  What \<open>trim\<close> removes: a run of white space and line terminators at each end, and
  nothing else; what is left neither starts nor ends with such a character.
\<close>

lemma rev_dropWhile_split:
  "u = rev (dropWhile P (rev u)) @ rev (takeWhile P (rev u))"
proof -
  have "rev (takeWhile P (rev u) @ dropWhile P (rev u)) = rev (rev u)"
    by (simp only: takeWhile_dropWhile_id)
  then show ?thesis by (simp only: rev_append rev_rev_ident)
qed

lemma trim_decomp:
  "\<exists>a b. t = a @ trim t @ b \<and> (\<forall>c\<in>set a. isTrimmable c) \<and> (\<forall>c\<in>set b. isTrimmable c)"
proof -
  define u where "u = dropWhile isTrimmable t"
  define a where "a = takeWhile isTrimmable t"
  define b where "b = rev (takeWhile isTrimmable (rev u))"
  have t: "t = a @ u" by (simp add: a_def u_def)
  have u: "u = trim t @ b"
    unfolding trim_def b_def u_def by (rule rev_dropWhile_split)
  have "\<forall>c\<in>set a. isTrimmable c" by (auto simp: a_def dest: set_takeWhileD)
  moreover have "\<forall>c\<in>set b. isTrimmable c" by (auto simp: b_def dest: set_takeWhileD)
  ultimately show ?thesis using t u by blast
qed

lemma trim_ends:
  assumes "trim t \<noteq> []"
  shows "\<not> isTrimmable (hd (trim t)) \<and> \<not> isTrimmable (last (trim t))"
proof -
  define u where "u = dropWhile isTrimmable t"
  define v where "v = dropWhile isTrimmable (rev u)"
  have tv: "trim t = rev v" by (simp add: trim_def u_def v_def)
  with assms have v: "v \<noteq> []" by simp
  then have l: "\<not> isTrimmable (hd v)" unfolding v_def by (rule hd_dropWhile)
  have u: "u = rev v @ rev (takeWhile isTrimmable (rev u))"
    unfolding v_def by (rule rev_dropWhile_split)
  with v have "u \<noteq> []" by auto
  then have "\<not> isTrimmable (hd u)" unfolding u_def by (rule hd_dropWhile)
  moreover from u v have "hd u = hd (rev v)" by (metis hd_append2 rev_is_Nil_conv)
  ultimately show ?thesis using l v tv by (simp add: last_rev)
qed

text \<open>
  Claim C7: for a listed mode, when the boundary returns a non-empty text,
  \<open>processTextWithGemini\<close> resolves with that text trimmed: the payload is the result
  between two runs of trimmable characters, and the result, when it is not empty, starts
  and ends with a character that is not trimmable.
\<close>

theorem success_payload_trimmed:
  assumes "mode \<in> {SUMMARIZE, KEY_POINTS, SIMPLIFY}"
    and "getPrompt mode text = Inr prompt"
    and "gen ''gemini-2.5-flash'' prompt = Inr resp"
    and "text_payload resp = Some payload"
    and "payload \<noteq> []"
  shows "processTextWithGemini gen text mode = Inr (trim payload)
         \<and> (\<exists>a b. payload = a @ trim payload @ b
                \<and> (\<forall>c\<in>set a. isTrimmable c) \<and> (\<forall>c\<in>set b. isTrimmable c))
         \<and> (trim payload \<noteq> [] \<longrightarrow>
                \<not> isTrimmable (hd (trim payload)) \<and> \<not> isTrimmable (last (trim payload)))"
proof (intro conjI)
  show "processTextWithGemini gen text mode = Inr (trim payload)"
    using assms(2-5) by (simp add: processTextWithGemini_def tryBlock_def)
  show "\<exists>a b. payload = a @ trim payload @ b
                \<and> (\<forall>c\<in>set a. isTrimmable c) \<and> (\<forall>c\<in>set b. isTrimmable c)"
    by (rule trim_decomp)
  show "trim payload \<noteq> [] \<longrightarrow>
                \<not> isTrimmable (hd (trim payload)) \<and> \<not> isTrimmable (last (trim payload))"
    using trim_ends by blast
qed

theorem success_payload_trimmed_witness:
  "KEY_POINTS \<in> {SUMMARIZE, KEY_POINTS, SIMPLIFY}
   \<and> ''  - a\<newline>- b \<newline>'' \<noteq> []
   \<and> processTextWithGemini (\<lambda>model contents. Inr \<lparr>text_payload = Some ''  - a\<newline>- b \<newline>''\<rparr>)
        ''long text'' KEY_POINTS = Inr ''- a\<newline>- b''"
proof -
  have m: "KEY_POINTS \<in> {SUMMARIZE, KEY_POINTS, SIMPLIFY}" by simp
  have p: "getPrompt KEY_POINTS ''long text'' = Inr (projr (getPrompt KEY_POINTS ''long text''))"
    by (simp add: getPrompt_def)
  have n: "''  - a\<newline>- b \<newline>'' \<noteq> []" by simp
  have t: "trim ''  - a\<newline>- b \<newline>'' = ''- a\<newline>- b''" by code_simp
  have "processTextWithGemini (\<lambda>model contents. Inr \<lparr>text_payload = Some ''  - a\<newline>- b \<newline>''\<rparr>)
        ''long text'' KEY_POINTS = Inr (trim ''  - a\<newline>- b \<newline>'')"
    using success_payload_trimmed [OF m p _ _ n, of "\<lambda>model contents. Inr \<lparr>text_payload = Some ''  - a\<newline>- b \<newline>''\<rparr>" "\<lparr>text_payload = Some ''  - a\<newline>- b \<newline>''\<rparr>"]
    by simp
  with m n t show ?thesis by simp
qed

text \<open>
  Claim C8: for each of the three listed modes and every input text, the instruction built
  by \<open>getPrompt\<close> is a template, the input text verbatim, and the closing rule; the
  template before the text holds the directive of the mode: a concise summary, key points
  as a bulleted list, or simplifying for a general audience.
\<close>

theorem getPrompt_contains_text_and_directive:
  "(\<exists>pre. getPrompt SUMMARIZE text = Inr (pre @ text @ ''\<newline>---'')
        \<and> sublist ''concise summary'' pre)
   \<and> (\<exists>pre. getPrompt KEY_POINTS text = Inr (pre @ text @ ''\<newline>---'')
        \<and> sublist ''key points'' pre \<and> sublist ''bulleted list'' pre)
   \<and> (\<exists>pre. getPrompt SIMPLIFY text = Inr (pre @ text @ ''\<newline>---'')
        \<and> sublist ''Simplify'' pre \<and> sublist ''general audience'' pre)"
  using getPrompt_shape directive_SUMMARIZE directive_KEY_POINTS directive_SIMPLIFY
  by blast

text \<open>
  Claim C10: whatever the input text, the mode and the behaviour of the boundary (a
  response with a text, with an empty or absent text, an \<open>Error\<close> thrown, another value
  thrown), \<open>processTextWithGemini\<close> resolves with a string; it never rejects.
\<close>

theorem processTextWithGemini_always_resolves:
  "\<exists>s. processTextWithGemini gen text mode = Inr s"
  by (auto simp: processTextWithGemini_def catchBlock_def split: sum.splits thrown.splits)

section \<open>Properties of the saved notes\<close>





end
